theory Spec2Isabelle
  imports Complex_Main
begin

section \<open>Values of the runtime\<close>

text \<open>
  The service is one Python module, \<^verbatim>\<open>examples/python-app/app.py\<close>, written against
  Flask. Its own code is embedded below function by function. What the module only
  calls (the interpreter, the clock, the process-inspection library, the web framework)
  appears as data handed to those functions, or as a short model of the documented
  contract the module relies on.

  A Python \<^verbatim>\<open>str\<close> is a \<^typ>\<open>string\<close>, an \<^verbatim>\<open>int\<close> an \<^typ>\<open>int\<close>. A Python
  \<^verbatim>\<open>float\<close> is modelled by the \<^typ>\<open>real\<close> it stands for; binary64 rounding is
  outside the model.
\<close>

subsection \<open>\<^verbatim>\<open>str.lower\<close>, \<^verbatim>\<open>str(int)\<close>, \<^verbatim>\<open>int(str)\<close>\<close>

definition lower_char :: "char \<Rightarrow> char" where
  "lower_char c =
     (case map_of (zip ''ABCDEFGHIJKLMNOPQRSTUVWXYZ'' ''abcdefghijklmnopqrstuvwxyz'') c of
        Some d \<Rightarrow> d
      | None \<Rightarrow> c)"

text \<open>
  \<^verbatim>\<open>str.lower\<close> on the ASCII letters. Bytes outside ASCII are kept. The module
  compares a lowered value with \<^verbatim>\<open>true\<close> only, and that comparison comes out the same:
  the only code points outside ASCII whose lower-case form holds an ASCII letter are
  U+0130 (an \<^verbatim>\<open>i\<close> with a combining dot) and U+212A (\<^verbatim>\<open>k\<close>), so a value with a
  character outside ASCII never lowers to \<^verbatim>\<open>true\<close>.
\<close>

definition lower :: "string \<Rightarrow> string" where
  "lower s = map lower_char s"

definition digit_char :: "nat \<Rightarrow> char" where
  "digit_char d = ''0123456789'' ! d"

function str_nat :: "nat \<Rightarrow> string" where
  "str_nat n = (if n < 10 then [digit_char n] else str_nat (n div 10) @ [digit_char (n mod 10)])"
  by pat_completeness auto
termination
  by (relation "measure id") auto

declare str_nat.simps [simp del]

text \<open>\<^verbatim>\<open>str(i)\<close>, as an f-string renders an \<^verbatim>\<open>int\<close>; and \<^verbatim>\<open>str(b)\<close> for a \<^verbatim>\<open>bool\<close>.\<close>

definition str_int :: "int \<Rightarrow> string" where
  "str_int i = (if i < 0 then CHR ''-'' # str_nat (nat (- i)) else str_nat (nat i))"

definition str_bool :: "bool \<Rightarrow> string" where
  "str_bool b = (if b then ''True'' else ''False'')"

datatype py_error = ValueError

text \<open>
  \<^verbatim>\<open>int(s)\<close> in base ten; \<^const>\<open>None\<close> stands for \<^verbatim>\<open>ValueError\<close>. On a string of
  ASCII characters the interpreter skips the six characters tab, line feed, vertical
  tab, form feed, carriage return and space at both ends (fewer than \<^verbatim>\<open>str.strip\<close>
  removes: the separators \<open>0x1C\<close> to \<open>0x1F\<close> are no space for \<^verbatim>\<open>int\<close>), allows one
  sign, and reads digits that may be grouped by single underscores. It then refuses a
  literal of more than 640 digits that exceeds its limit on the number of digits, when
  it has one.

  Two facts of the interpreter are taken as given: that limit
  (\<^verbatim>\<open>sys.get_int_max_str_digits()\<close>, 4300 unless configured, 0 for none), and its
  answer on a string with a character outside ASCII, where it also reads the decimal
  digits and spaces of other scripts.
\<close>

record interpreter =
  max_str_digits :: nat
  int_beyond_ascii :: "string \<Rightarrow> int option"

definition is_ascii :: "char \<Rightarrow> bool" where
  "is_ascii c = (\<not> digit7 c)"

definition int_space :: "char list" where
  "int_space = [CHR 0x09, CHR 0x0A, CHR 0x0B, CHR 0x0C, CHR 0x0D, CHR 0x20]"

definition skip_space :: "string \<Rightarrow> string" where
  "skip_space s = rev (dropWhile (\<lambda>c. c \<in> set int_space)
                    (rev (dropWhile (\<lambda>c. c \<in> set int_space) s)))"

definition digit_val :: "char \<Rightarrow> int option" where
  "digit_val c = map_of (zip ''0123456789'' [0, 1, 2, 3, 4, 5, 6, 7, 8, 9]) c"

fun more_digits :: "int \<Rightarrow> string \<Rightarrow> int option" where
  "more_digits acc [] = Some acc"
| "more_digits acc (c # cs) =
     (if c = CHR ''_'' then
        (case cs of
           [] \<Rightarrow> None
         | d # ds \<Rightarrow>
             (case digit_val d of
                None \<Rightarrow> None
              | Some n \<Rightarrow> more_digits (acc * 10 + n) ds))
      else
        (case digit_val c of
           None \<Rightarrow> None
         | Some n \<Rightarrow> more_digits (acc * 10 + n) cs))"

definition too_many_digits :: "nat \<Rightarrow> string \<Rightarrow> bool" where
  "too_many_digits limit s =
     (let n = length (filter (\<lambda>c. c \<noteq> CHR ''_'') s)
      in 0 < limit \<and> 640 < n \<and> limit < n)"

definition unsigned :: "nat \<Rightarrow> string \<Rightarrow> int option" where
  "unsigned limit s =
     (case s of
        [] \<Rightarrow> None
      | d # ds \<Rightarrow>
          (case digit_val d of
             None \<Rightarrow> None
           | Some n \<Rightarrow>
               (case more_digits n ds of
                  None \<Rightarrow> None
                | Some v \<Rightarrow> if too_many_digits limit s then None else Some v)))"

definition py_int :: "interpreter \<Rightarrow> string \<Rightarrow> int option" where
  "py_int py s =
     (if list_all is_ascii s then
        (case skip_space s of
           [] \<Rightarrow> None
         | c # cs \<Rightarrow>
             if c = CHR ''-'' then map_option uminus (unsigned (max_str_digits py) cs)
             else if c = CHR ''+'' then unsigned (max_str_digits py) cs
             else unsigned (max_str_digits py) (c # cs))
      else int_beyond_ascii py s)"

subsection \<open>Clock readings\<close>

text \<open>
  \<^verbatim>\<open>datetime.now()\<close> returns a naive local wall-clock reading with microsecond
  resolution. A reading is modelled by its position on that timeline, in microseconds;
  the difference of two readings is a \<^verbatim>\<open>timedelta\<close>, again a whole number of
  microseconds, and \<^verbatim>\<open>total_seconds\<close> divides it by \<open>10\<^sup>6\<close>.
\<close>

type_synonym datetime = int

type_synonym timedelta = int

definition total_seconds :: "timedelta \<Rightarrow> real" where
  "total_seconds d = real_of_int d / 1000000"

section \<open>Configuration\<close>

text \<open>
  The module-level dictionary \<^verbatim>\<open>CONFIG\<close> (lines 16-21), built once from the process
  environment when the module is loaded.
\<close>

record config =
  port :: int
  host :: string
  env :: string
  debug :: bool

type_synonym environ = "string \<rightharpoonup> string"

definition getenv :: "environ \<Rightarrow> string \<Rightarrow> string \<Rightarrow> string" where
  "getenv e k dflt = (case e k of None \<Rightarrow> dflt | Some v \<Rightarrow> v)"

text \<open>
  \<^verbatim>\<open>int(os.getenv('PORT', 8080))\<close>: the default is the integer \<open>8080\<close> itself, a value
  that is set goes through \<^const>\<open>py_int\<close>, and its \<^verbatim>\<open>ValueError\<close> ends the loading
  of the module.
\<close>

definition CONFIG_of :: "interpreter \<Rightarrow> environ \<Rightarrow> py_error + config" where
  "CONFIG_of py e =
     (case (case e ''PORT'' of None \<Rightarrow> Some 8080 | Some s \<Rightarrow> py_int py s) of
        None \<Rightarrow> Inl ValueError
      | Some p \<Rightarrow>
          Inr \<lparr>port = p,
               host = getenv e ''HOST'' ''0.0.0.0'',
               env = getenv e ''FLASK_ENV'' ''production'',
               debug = (lower (getenv e ''DEBUG'' ''false'') = ''true'')\<rparr>)"

section \<open>Process state and effects\<close>

datatype level = INFO | ERROR

text \<open>
  What the process does to the outside, in order: a line handed to the logger, a blocking
  \<^verbatim>\<open>time.sleep\<close> of so many seconds, \<^verbatim>\<open>sys.exit\<close> with a code.
\<close>

datatype effect = Log level string | Sleep nat | Exit int

text \<open>
  The module's globals (lines 16-37) and the effects so far. Nothing else is shared
  between requests.
\<close>

record state =
  CONFIG :: config
  start_time :: datetime
  is_shutting_down :: bool
  trace :: "effect list"

definition logger_info :: "string \<Rightarrow> state \<Rightarrow> state" where
  "logger_info msg st = st\<lparr>trace := trace st @ [Log INFO msg]\<rparr>"

definition logger_error :: "string \<Rightarrow> state \<Rightarrow> state" where
  "logger_error msg st = st\<lparr>trace := trace st @ [Log ERROR msg]\<rparr>"

definition time_sleep :: "nat \<Rightarrow> state \<Rightarrow> state" where
  "time_sleep n st = st\<lparr>trace := trace st @ [Sleep n]\<rparr>"

definition sys_exit :: "int \<Rightarrow> state \<Rightarrow> state" where
  "sys_exit c st = st\<lparr>trace := trace st @ [Exit c]\<rparr>"

text \<open>The code the process ended with, if it has ended: the first exit on the trace.\<close>

fun exit_status :: "effect list \<Rightarrow> int option" where
  "exit_status [] = None"
| "exit_status (Exit c # es) = Some c"
| "exit_status (e # es) = exit_status es"

text \<open>Loading the module: \<^verbatim>\<open>CONFIG\<close>, then \<^verbatim>\<open>start_time = datetime.now()\<close> and the flag.\<close>

definition module_init :: "interpreter \<Rightarrow> environ \<Rightarrow> datetime \<Rightarrow> py_error + state" where
  "module_init py e now =
     (case CONFIG_of py e of
        Inl err \<Rightarrow> Inl err
      | Inr c \<Rightarrow> Inr \<lparr>CONFIG = c, start_time = now, is_shutting_down = False, trace = []\<rparr>)"

section \<open>Requests and responses\<close>

text \<open>
  The request as Flask presents it to the module: \<^verbatim>\<open>request.method\<close> (upper case),
  \<^verbatim>\<open>request.path\<close> and \<^verbatim>\<open>request.remote_addr\<close>, the latter after the one-hop
  \<^verbatim>\<open>ProxyFix\<close> of line 33.
\<close>

record request =
  request_method :: string
  path :: string
  remote_addr :: "string option"

text \<open>
  A JSON document as \<^verbatim>\<open>jsonify\<close> receives it. An object is the list of the entries
  of the dictionary literal; the order in which the serializer writes them is not
  modelled. \<open>JIso t\<close> is the string \<^verbatim>\<open>t.isoformat()\<close> of the clock reading \<open>t\<close>; its
  rendering belongs to the standard library.
\<close>

datatype json =
    JNull
  | JBool bool
  | JInt int
  | JFloat real
  | JStr string
  | JIso datetime
  | JObj "(string \<times> json) list"

fun field :: "json \<Rightarrow> string \<Rightarrow> json option" where
  "field (JObj kvs) k = map_of kvs k"
| "field j k = None"

text \<open>
  A formatted string literal is kept as its pieces: literal text, and the \<^verbatim>\<open>int\<close> and
  \<^verbatim>\<open>float\<close> values put into its replacement fields. A text body is a list of lines,
  each ended by a newline.
\<close>

datatype fpart = Lit string | FInt int | FFloat real

datatype body =
    Json json
  | Text "fpart list list"
  | Framework_page
  | Empty

record response =
  status :: int
  headers :: "(string \<times> string) list"
  body :: body

text \<open>
  \<^verbatim>\<open>response.headers[k] = v\<close>: the first entry of that name is replaced and any
  further one dropped; a new name is appended. \<open>header_values\<close> lists every value
  sent under a name.
\<close>

fun set_header :: "string \<Rightarrow> string \<Rightarrow> (string \<times> string) list \<Rightarrow> (string \<times> string) list" where
  "set_header k v [] = [(k, v)]"
| "set_header k v ((k', v') # hs) =
     (if k' = k then (k, v) # filter (\<lambda>h. fst h \<noteq> k) hs
      else (k', v') # set_header k v hs)"

definition header_values :: "(string \<times> string) list \<Rightarrow> string \<Rightarrow> string list" where
  "header_values hs k = map snd (filter (\<lambda>h. fst h = k) hs)"

text \<open>
  \<^verbatim>\<open>jsonify(d)\<close> is a 200 response of type \<^verbatim>\<open>application/json\<close>; a view that returns
  \<^verbatim>\<open>(response, code)\<close> has the code set on the response.
\<close>

definition jsonify :: "(string \<times> json) list \<Rightarrow> response" where
  "jsonify d = \<lparr>status = 200, headers = [(''Content-Type'', ''application/json'')],
                body = Json (JObj d)\<rparr>"

definition with_status :: "response \<Rightarrow> int \<Rightarrow> response" where
  "with_status r code = r\<lparr>status := code\<rparr>"

text \<open>
  What the platform answers while one request is handled: the \<open>k\<close>-th call of
  \<^verbatim>\<open>datetime.now()\<close> returns \<open>clock k\<close>; the interpreter, process and system
  facts read by \<^verbatim>\<open>/info\<close>; the samples \<^verbatim>\<open>psutil\<close> takes for \<^verbatim>\<open>/metrics\<close>. The
  two calls of \<^verbatim>\<open>psutil.virtual_memory()\<close> are two samples. \<open>send_static_file\<close> is
  the framework's answer for a name under the static folder, \<^const>\<open>None\<close> when it
  raises \<^verbatim>\<open>NotFound\<close>.
\<close>

record runtime =
  clock :: "nat \<Rightarrow> datetime"
  sys_version :: string
  sys_executable :: string
  sys_platform :: string
  getpid :: int
  os_environ :: environ
  getcwd :: string
  cpu_count :: "int option"
  memory_total :: int
  memory_available :: int
  memory_info_rss :: int
  memory_info_vms :: int
  cpu_percent :: real
  num_fds :: int
  num_threads :: int
  send_static_file :: "string \<Rightarrow> response option"

section \<open>Middleware and views\<close>

text \<open>Lines 41-48, the \<^verbatim>\<open>after_request\<close> hook.\<close>

definition add_security_headers :: "response \<Rightarrow> response" where
  "add_security_headers r =
     r\<lparr>headers :=
         set_header ''Strict-Transport-Security'' ''max-age=31536000; includeSubDomains''
           (set_header ''X-XSS-Protection'' ''1; mode=block''
             (set_header ''X-Frame-Options'' ''DENY''
               (set_header ''X-Content-Type-Options'' ''nosniff'' (headers r))))\<rparr>"

text \<open>Lines 52-55, the \<^verbatim>\<open>before_request\<close> hook.\<close>

definition log_request :: "request \<Rightarrow> state \<Rightarrow> state" where
  "log_request req st =
     logger_info
       (''Request: '' @ request_method req @ '' '' @ path req @ '' from '' @
          (case remote_addr req of None \<Rightarrow> ''None'' | Some a \<Rightarrow> a))
       st"

text \<open>Lines 59-71.\<close>

definition index :: "state \<Rightarrow> runtime \<Rightarrow> response" where
  "index st rt =
     (if is_shutting_down st then
        with_status (jsonify [(''error'', JStr ''Service shutting down'')]) 503
      else
        jsonify
          [(''message'', JStr ''Hello from Python Docker base image!''),
           (''version'', JStr ''1.0.0''),
           (''environment'', JStr (env (CONFIG st))),
           (''timestamp'', JIso (clock rt 0)),
           (''python_version'', JStr (sys_version rt))])"

text \<open>Lines 74-83. The clock is read twice: for the uptime, then for the timestamp.\<close>

definition health :: "state \<Rightarrow> runtime \<Rightarrow> response" where
  "health st rt =
     (let uptime = total_seconds (clock rt 0 - start_time st) in
      jsonify
        [(''status'', JStr ''healthy''),
         (''uptime'', JFloat uptime),
         (''timestamp'', JIso (clock rt 1))])"

text \<open>Lines 86-95.\<close>

definition ready :: "state \<Rightarrow> runtime \<Rightarrow> response" where
  "ready st rt =
     (let ready = \<not> is_shutting_down st;
          status_code = (if ready then 200 else 503)
      in with_status
           (jsonify [(''ready'', JBool ready), (''timestamp'', JIso (clock rt 0))])
           status_code)"

text \<open>
  Lines 98-128. The text is the f-string of lines 106-126, line by line; the view
  returns it with status 200 and its own content type.
\<close>

definition metrics :: "state \<Rightarrow> runtime \<Rightarrow> response" where
  \<open>metrics st rt =
     (let uptime = total_seconds (clock rt 0 - start_time st);
          metrics_text =
            [[Lit ''# HELP process_uptime_seconds Process uptime in seconds''],
             [Lit ''# TYPE process_uptime_seconds gauge''],
             [Lit ''process_uptime_seconds '', FFloat uptime],
             [],
             [Lit ''# HELP process_cpu_percent Process CPU usage percentage''],
             [Lit ''# TYPE process_cpu_percent gauge''],
             [Lit ''process_cpu_percent '', FFloat (cpu_percent rt)],
             [],
             [Lit ''# HELP process_memory_bytes Process memory usage in bytes''],
             [Lit ''# TYPE process_memory_bytes gauge''],
             [Lit ''process_memory_bytes{type="rss"} '', FInt (memory_info_rss rt)],
             [Lit ''process_memory_bytes{type="vms"} '', FInt (memory_info_vms rt)],
             [],
             [Lit ''# HELP process_open_fds Number of open file descriptors''],
             [Lit ''# TYPE process_open_fds gauge''],
             [Lit ''process_open_fds '', FInt (num_fds rt)],
             [],
             [Lit ''# HELP process_threads Number of threads''],
             [Lit ''# TYPE process_threads gauge''],
             [Lit ''process_threads '', FInt (num_threads rt)]]
      in \<lparr>status = 200,
          headers = [(''Content-Type'', ''text/plain; charset=utf-8'')],
          body = Text metrics_text\<rparr>)\<close>

text \<open>Lines 131-150.\<close>

definition info :: "state \<Rightarrow> runtime \<Rightarrow> response" where
  "info st rt =
     jsonify
       [(''python'',
           JObj [(''version'', JStr (sys_version rt)),
                 (''executable'', JStr (sys_executable rt)),
                 (''platform'', JStr (sys_platform rt))]),
        (''process'',
           JObj [(''pid'', JInt (getpid rt)),
                 (''user'', JStr (getenv (os_environ rt) ''USER'' ''unknown'')),
                 (''cwd'', JStr (getcwd rt))]),
        (''system'',
           JObj [(''cpu_count'', (case cpu_count rt of None \<Rightarrow> JNull | Some n \<Rightarrow> JInt n)),
                 (''memory_total'', JInt (memory_total rt)),
                 (''memory_available'', JInt (memory_available rt))])]"

text \<open>Lines 154-160, the handler of 404.\<close>

definition not_found :: "request \<Rightarrow> response" where
  "not_found req =
     with_status (jsonify [(''error'', JStr ''Not Found''), (''path'', JStr (path req))]) 404"

text \<open>
  Lines 163-169, the handler of 500; \<open>error\<close> is the text of the exception it is
  called with.
\<close>

definition internal_error :: "string \<Rightarrow> state \<Rightarrow> response \<times> state" where
  "internal_error error st =
     (let st' = logger_error (''Internal server error: '' @ error) st
      in (with_status (jsonify [(''error'', JStr ''Internal Server Error'')]) 500, st'))"

section \<open>Dispatch\<close>

text \<open>
  The five \<^verbatim>\<open>@app.route\<close> registrations (lines 59, 74, 86, 98, 131). None names its
  methods, so each rule answers \<^verbatim>\<open>GET\<close>, and the framework adds \<^verbatim>\<open>HEAD\<close> (served by
  the same view) and \<^verbatim>\<open>OPTIONS\<close> (answered by the framework itself). A rule is a plain
  path without a trailing slash and without a variable part, so it matches exactly the
  requests whose \<^verbatim>\<open>request.path\<close> is that string. \<^verbatim>\<open>Flask(__name__)\<close> (line 32)
  registers one more rule on its own, \<^verbatim>\<open>/static/<path:filename>\<close>; every path that
  starts with \<^verbatim>\<open>/static/\<close> is left to it.
\<close>

datatype view = Index | Health | Ready | Metrics | Info

definition url_map :: "(string \<times> view) list" where
  "url_map =
     [(''/'', Index), (''/health'', Health), (''/ready'', Ready),
      (''/metrics'', Metrics), (''/info'', Info)]"

datatype endpoint = View view | Static string

definition find_rule :: "string \<Rightarrow> endpoint option" where
  "find_rule p =
     (case map_of url_map p of
        Some v \<Rightarrow> Some (View v)
      | None \<Rightarrow> if take 8 p = ''/static/'' then Some (Static (drop 8 p)) else None)"

datatype routing = Matched endpoint | Automatic_options | Method_not_allowed | No_match

definition url_match :: "request \<Rightarrow> routing" where
  "url_match req =
     (case find_rule (path req) of
        None \<Rightarrow> No_match
      | Some ep \<Rightarrow>
          if request_method req = ''GET'' \<or> request_method req = ''HEAD'' then Matched ep
          else if request_method req = ''OPTIONS'' then Automatic_options
          else Method_not_allowed)"

fun view_function :: "view \<Rightarrow> state \<Rightarrow> runtime \<Rightarrow> response" where
  "view_function Index = index"
| "view_function Health = health"
| "view_function Ready = ready"
| "view_function Metrics = metrics"
| "view_function Info = info"

text \<open>
  A request with no matching rule goes to the registered handler of 404, and so does
  the \<^verbatim>\<open>NotFound\<close> of the static rule. For a method no rule answers, and for
  \<^verbatim>\<open>OPTIONS\<close>, the module registers nothing and the framework builds the response; of
  its headers only the content type is kept here.
\<close>

definition dispatch_request :: "state \<Rightarrow> runtime \<Rightarrow> request \<Rightarrow> response" where
  "dispatch_request st rt req =
     (case url_match req of
        Matched (View v) \<Rightarrow> view_function v st rt
      | Matched (Static name) \<Rightarrow>
          (case send_static_file rt name of None \<Rightarrow> not_found req | Some r \<Rightarrow> r)
      | Automatic_options \<Rightarrow>
          \<lparr>status = 200, headers = [(''Content-Type'', ''text/html; charset=utf-8'')],
           body = Empty\<rparr>
      | Method_not_allowed \<Rightarrow>
          \<lparr>status = 405, headers = [(''Content-Type'', ''text/html; charset=utf-8'')],
           body = Framework_page\<rparr>
      | No_match \<Rightarrow> not_found req)"

text \<open>
  One request through the application: the \<^verbatim>\<open>before_request\<close> hook, the dispatch, the
  \<^verbatim>\<open>after_request\<close> hook on whatever response came out. The result is the response
  object the application hands to the server; of the response to a \<^verbatim>\<open>HEAD\<close> request
  the server sends the status and the headers only.
\<close>

definition full_dispatch_request :: "state \<Rightarrow> runtime \<Rightarrow> request \<Rightarrow> response \<times> state" where
  "full_dispatch_request st rt req =
     (let st' = log_request req st;
          rv = dispatch_request st' rt req
      in (add_security_headers rv, st'))"

text \<open>
  An exception \<open>e\<close> that escapes a view. With \<^verbatim>\<open>debug\<close> on, the framework re-raises
  it to the development server and the application builds no response (\<open>Inl\<close>).
  Otherwise the handler of 500 runs and its response passes the \<^verbatim>\<open>after_request\<close>
  hook like any other. The views above are straight-line code over platform calls that
  are taken to return, so none of them reaches this path by itself.
\<close>

definition handle_exception :: "state \<Rightarrow> string \<Rightarrow> string + response \<times> state" where
  "handle_exception st e =
     (if debug (CONFIG st) then Inl e
      else (let (rv, st') = internal_error e st in Inr (add_security_headers rv, st')))"

section \<open>Shutdown\<close>

text \<open>
  Lines 190-191 register \<^verbatim>\<open>graceful_shutdown\<close> for two signals; the handler is called
  with the signal's number. Every other signal keeps its default disposition and is not
  part of the model.
\<close>

datatype signal = SIGTERM | SIGINT

fun signum :: "signal \<Rightarrow> int" where
  "signum SIGTERM = 15"
| "signum SIGINT = 2"

text \<open>
  Lines 173-186, cut where the handler blocks: up to the call of \<^verbatim>\<open>time.sleep(2)\<close>,
  and from its return.
\<close>

definition graceful_shutdown_until_sleep :: "int \<Rightarrow> state \<Rightarrow> state" where
  "graceful_shutdown_until_sleep n st =
     time_sleep 2
       (logger_info ''Waiting for in-flight requests to complete...''
         ((logger_info (''Received signal '' @ str_int n @ '', starting graceful shutdown...'') st)
            \<lparr>is_shutting_down := True\<rparr>))"

definition graceful_shutdown_after_sleep :: "state \<Rightarrow> state" where
  "graceful_shutdown_after_sleep st = sys_exit 0 (logger_info ''Shutdown complete'' st)"

definition graceful_shutdown :: "int \<Rightarrow> state \<Rightarrow> state" where
  "graceful_shutdown n st = graceful_shutdown_after_sleep (graceful_shutdown_until_sleep n st)"

section \<open>The running process\<close>

text \<open>
  What can happen to the running server: a request arrives (with what the platform will
  answer while it is handled), one of the two signals is delivered, or the sleep the
  handler is blocked in runs out. Each event is taken as a whole. While the handler
  sleeps in the main thread, worker threads of the server can still be handling
  requests; a request handled then sees the flag the handler has set. A signal
  delivered during the sleep runs the handler again, inside the first call; whichever
  call reaches \<^verbatim>\<open>sys.exit\<close> ends the process. After the exit nothing is served.
\<close>

datatype event = Request runtime request | Signal signal | Grace_elapsed

definition step :: "state \<Rightarrow> event \<Rightarrow> state \<times> (request \<times> response) option" where
  "step st ev =
     (if exit_status (trace st) \<noteq> None then (st, None)
      else
        (case ev of
           Request rt req \<Rightarrow> (let (resp, st') = full_dispatch_request st rt req in (st', Some (req, resp)))
         | Signal s \<Rightarrow> (graceful_shutdown_until_sleep (signum s) st, None)
         | Grace_elapsed \<Rightarrow>
             (if is_shutting_down st then graceful_shutdown_after_sleep st else st, None)))"

fun run :: "state \<Rightarrow> event list \<Rightarrow> state \<times> (request \<times> response) list" where
  "run st [] = (st, [])"
| "run st (ev # evs) =
     (let (st', out) = step st ev;
          (st'', outs) = run st' evs
      in (st'', (case out of None \<Rightarrow> outs | Some x \<Rightarrow> x # outs)))"

text \<open>
  Lines 194-208. \<^verbatim>\<open>app.run\<close> either raises an \<^verbatim>\<open>Exception\<close> (its text is \<open>e\<close>), which
  the \<^verbatim>\<open>except\<close> clause logs before \<^verbatim>\<open>sys.exit(1)\<close>, or serves. The
  \<^verbatim>\<open>SystemExit\<close> of the signal handler is no \<^verbatim>\<open>Exception\<close>: it passes the clause and
  ends the process with the handler's code.
\<close>

datatype launch = Raises string | Serves "event list"

definition main :: "state \<Rightarrow> launch \<Rightarrow> state \<times> (request \<times> response) list" where
  "main st l =
     (let st' =
            logger_info (''Debug mode: '' @ str_bool (debug (CONFIG st)))
              (logger_info (''Environment: '' @ env (CONFIG st))
                (logger_info
                   (''Starting application on '' @ host (CONFIG st) @ '':'' @
                      str_int (port (CONFIG st)))
                   st))
      in (case l of
            Raises e \<Rightarrow> (sys_exit 1 (logger_error (''Failed to start application: '' @ e) st'), [])
          | Serves evs \<Rightarrow> run st' evs))"

section \<open>Observations on responses\<close>

text \<open>A member of a JSON body, and the lines of a text body that carry a sample.\<close>

definition json_field :: "response \<Rightarrow> string \<Rightarrow> json option" where
  "json_field r k = (case body r of Json j \<Rightarrow> field j k | _ \<Rightarrow> None)"




text \<open>
  Equality of two strings up to the case of their ASCII letters, as the specification
  words the test of \<^verbatim>\<open>DEBUG\<close>; written without \<^const>\<open>lower\<close>.
\<close>

definition same_letter :: "char \<Rightarrow> char \<Rightarrow> bool" where
  "same_letter a b =
     (a = b
      \<or> (a, b) \<in> set (zip ''ABCDEFGHIJKLMNOPQRSTUVWXYZ'' ''abcdefghijklmnopqrstuvwxyz'')
      \<or> (b, a) \<in> set (zip ''ABCDEFGHIJKLMNOPQRSTUVWXYZ'' ''abcdefghijklmnopqrstuvwxyz''))"

definition equal_ignoring_case :: "string \<Rightarrow> string \<Rightarrow> bool" where
  "equal_ignoring_case s t = list_all2 same_letter s t"

section \<open>Sample inputs\<close>

text \<open>
  An interpreter with the default limit on digits (the sample inputs hold ASCII only, so
  its answer beyond ASCII is never asked for), a process started with an empty
  environment at reading \<open>10\<^sup>7\<close>, a platform whose clock advances by one second per
  reading from \<open>t\<close> and whose static folder is empty, and a \<^verbatim>\<open>GET\<close> request.
\<close>

definition an_interpreter :: interpreter where
  "an_interpreter = \<lparr>max_str_digits = 4300, int_beyond_ascii = (\<lambda>s. None)\<rparr>"

definition started :: state where
  "started =
     \<lparr>CONFIG = \<lparr>port = 8080, host = ''0.0.0.0'', env = ''production'', debug = False\<rparr>,
      start_time = 10000000, is_shutting_down = False, trace = []\<rparr>"

definition platform :: "datetime \<Rightarrow> runtime" where
  "platform t =
     \<lparr>clock = (\<lambda>k. t + 1000000 * int k),
      sys_version = ''3.11.4 (main)'', sys_executable = ''/usr/local/bin/python3'',
      sys_platform = ''linux'', getpid = 1, os_environ = Map.empty, getcwd = ''/app'',
      cpu_count = Some 4, memory_total = 8000000000, memory_available = 6000000000,
      memory_info_rss = 40000000, memory_info_vms = 250000000, cpu_percent = 1 / 2,
      num_fds = 7, num_threads = 3, send_static_file = (\<lambda>name. None)\<rparr>"

definition GET :: "string \<Rightarrow> request" where
  "GET p = \<lparr>request_method = ''GET'', path = p, remote_addr = Some ''10.0.0.1''\<rparr>"

section \<open>Facts about the model\<close>

subsection \<open>Headers\<close>

lemma header_values_Nil: "header_values [] k = []"
  by (simp add: header_values_def)

lemma header_values_Cons:
  "header_values (h # hs) k = (if fst h = k then snd h # header_values hs k else header_values hs k)"
  by (simp add: header_values_def)


lemma header_values_drop_other:
  "k' \<noteq> k \<Longrightarrow> header_values (filter (\<lambda>h. fst h \<noteq> k) hs) k' = header_values hs k'"
  by (induction hs) (auto simp: header_values_def)

lemma header_values_set_header_other:
  "k' \<noteq> k \<Longrightarrow> header_values (set_header k v hs) k' = header_values hs k'"
  by (induction hs) (auto simp: header_values_Cons header_values_Nil header_values_drop_other)


lemma status_add_security_headers [simp]: "status (add_security_headers r) = status r"
  by (simp add: add_security_headers_def)

lemma body_add_security_headers [simp]: "body (add_security_headers r) = body r"
  by (simp add: add_security_headers_def)

lemma json_field_add_security_headers [simp]:
  "json_field (add_security_headers r) k = json_field r k"
  by (simp add: json_field_def)

lemma content_type_add_security_headers [simp]:
  "header_values (headers (add_security_headers r)) ''Content-Type'' =
   header_values (headers r) ''Content-Type''"
  by (simp add: add_security_headers_def header_values_set_header_other)

subsection \<open>One request\<close>

lemma fst_full_dispatch_request:
  "fst (full_dispatch_request st rt req) = add_security_headers (dispatch_request (log_request req st) rt req)"
  by (simp add: full_dispatch_request_def Let_def)

lemma snd_full_dispatch_request: "snd (full_dispatch_request st rt req) = log_request req st"
  by (simp add: full_dispatch_request_def Let_def)

lemma log_request_globals [simp]:
  "CONFIG (log_request req st) = CONFIG st"
  "start_time (log_request req st) = start_time st"
  "is_shutting_down (log_request req st) = is_shutting_down st"
  by (simp_all add: log_request_def logger_info_def)

lemma dispatch_to_view:
  assumes "map_of url_map (path req) = Some v"
    and "request_method req = ''GET'' \<or> request_method req = ''HEAD''"
  shows "fst (full_dispatch_request st rt req) =
         add_security_headers (view_function v (log_request req st) rt)"
  using assms
  by (auto simp: fst_full_dispatch_request dispatch_request_def url_match_def find_rule_def)

lemma dispatch_no_match:
  assumes "path req \<notin> fst ` set url_map"
    and "take 8 (path req) \<noteq> ''/static/''"
  shows "fst (full_dispatch_request st rt req) = add_security_headers (not_found req)"
proof -
  have "map_of url_map (path req) = None"
    using assms(1) by (simp add: map_of_eq_None_iff)
  then show ?thesis
    using assms(2)
    by (simp add: fst_full_dispatch_request dispatch_request_def url_match_def find_rule_def)
qed

lemma GET_request [simp]:
  "path (GET p) = p"
  "request_method (GET p) = ''GET''"
  by (simp_all add: GET_def)

subsection \<open>Effects\<close>

lemma exit_status_append:
  "exit_status (xs @ ys) = (case exit_status xs of None \<Rightarrow> exit_status ys | Some c \<Rightarrow> Some c)"
  by (induction xs rule: exit_status.induct) simp_all

lemma logger_info_fields [simp]:
  "CONFIG (logger_info m st) = CONFIG st"
  "start_time (logger_info m st) = start_time st"
  "is_shutting_down (logger_info m st) = is_shutting_down st"
  "trace (logger_info m st) = trace st @ [Log INFO m]"
  by (simp_all add: logger_info_def)

lemma logger_error_fields [simp]:
  "CONFIG (logger_error m st) = CONFIG st"
  "start_time (logger_error m st) = start_time st"
  "is_shutting_down (logger_error m st) = is_shutting_down st"
  "trace (logger_error m st) = trace st @ [Log ERROR m]"
  by (simp_all add: logger_error_def)

lemma time_sleep_fields [simp]:
  "CONFIG (time_sleep n st) = CONFIG st"
  "start_time (time_sleep n st) = start_time st"
  "is_shutting_down (time_sleep n st) = is_shutting_down st"
  "trace (time_sleep n st) = trace st @ [Sleep n]"
  by (simp_all add: time_sleep_def)

lemma sys_exit_fields [simp]:
  "CONFIG (sys_exit c st) = CONFIG st"
  "start_time (sys_exit c st) = start_time st"
  "is_shutting_down (sys_exit c st) = is_shutting_down st"
  "trace (sys_exit c st) = trace st @ [Exit c]"
  by (simp_all add: sys_exit_def)

lemma trace_log_request:
  "trace (log_request req st) =
   trace st @ [Log INFO (''Request: '' @ request_method req @ '' '' @ path req @ '' from '' @
          (case remote_addr req of None \<Rightarrow> ''None'' | Some a \<Rightarrow> a))]"
  by (simp add: log_request_def)

subsection \<open>The signal handler\<close>

lemma until_sleep_fields [simp]:
  "CONFIG (graceful_shutdown_until_sleep n st) = CONFIG st"
  "start_time (graceful_shutdown_until_sleep n st) = start_time st"
  "is_shutting_down (graceful_shutdown_until_sleep n st)"
  "trace (graceful_shutdown_until_sleep n st) =
     trace st @ [Log INFO (''Received signal '' @ str_int n @ '', starting graceful shutdown...''),
                 Log INFO ''Waiting for in-flight requests to complete...'', Sleep 2]"
  by (simp_all add: graceful_shutdown_until_sleep_def)

lemma after_sleep_fields [simp]:
  "CONFIG (graceful_shutdown_after_sleep st) = CONFIG st"
  "start_time (graceful_shutdown_after_sleep st) = start_time st"
  "is_shutting_down (graceful_shutdown_after_sleep st) = is_shutting_down st"
  "trace (graceful_shutdown_after_sleep st) = trace st @ [Log INFO ''Shutdown complete'', Exit 0]"
  by (simp_all add: graceful_shutdown_after_sleep_def)

subsection \<open>Steps and runs\<close>

lemma step_exited: "exit_status (trace st) \<noteq> None \<Longrightarrow> step st ev = (st, None)"
  by (simp add: step_def)

lemma step_Request:
  "exit_status (trace st) = None \<Longrightarrow>
   step st (Request rt req) = (log_request req st, Some (req, fst (full_dispatch_request st rt req)))"
  by (simp add: step_def full_dispatch_request_def Let_def)

lemma step_Signal:
  "exit_status (trace st) = None \<Longrightarrow>
   step st (Signal s) = (graceful_shutdown_until_sleep (signum s) st, None)"
  by (simp add: step_def)

lemma step_Grace_elapsed:
  "exit_status (trace st) = None \<Longrightarrow>
   step st Grace_elapsed =
     (if is_shutting_down st then graceful_shutdown_after_sleep st else st, None)"
  by (simp add: step_def)

lemma step_globals:
  "CONFIG (fst (step st ev)) = CONFIG st"
  "start_time (fst (step st ev)) = start_time st"
  by (cases "exit_status (trace st)"; cases ev;
      simp add: step_exited step_Request step_Signal step_Grace_elapsed)+

lemma step_keeps_flag: "is_shutting_down st \<Longrightarrow> is_shutting_down (fst (step st ev))"
  by (cases "exit_status (trace st)"; cases ev;
      simp add: step_exited step_Request step_Signal step_Grace_elapsed)

lemma step_flag_writer:
  "is_shutting_down (fst (step st ev)) \<noteq> is_shutting_down st \<Longrightarrow> \<exists>s. ev = Signal s"
  by (cases "exit_status (trace st)"; cases ev;
      simp add: step_exited step_Request step_Signal step_Grace_elapsed split: if_splits)

lemma step_response:
  "snd (step st ev) = Some (req, resp) \<Longrightarrow> \<exists>rt. resp = fst (full_dispatch_request st rt req)"
  by (cases "exit_status (trace st)"; cases ev;
      auto simp add: step_exited step_Request step_Signal step_Grace_elapsed)

lemma run_Cons:
  "run st (ev # evs) =
     (fst (run (fst (step st ev)) evs),
      (case snd (step st ev) of None \<Rightarrow> [] | Some x \<Rightarrow> [x]) @ snd (run (fst (step st ev)) evs))"
  by (simp add: Let_def split: prod.splits option.splits)

declare run.simps(2) [simp del]

lemma run_globals:
  "CONFIG (fst (run st evs)) = CONFIG st \<and> start_time (fst (run st evs)) = start_time st"
  by (induction evs arbitrary: st) (simp_all add: run_Cons step_globals)

lemma run_keeps_flag: "is_shutting_down st \<Longrightarrow> is_shutting_down (fst (run st evs))"
  by (induction evs arbitrary: st) (simp_all add: run_Cons step_keeps_flag)

lemma run_responses:
  "(req, resp) \<in> set (snd (run st evs)) \<Longrightarrow>
   \<exists>st' rt. resp = fst (full_dispatch_request st' rt req)
     \<and> (is_shutting_down st \<longrightarrow> is_shutting_down st')
     \<and> start_time st' = start_time st \<and> CONFIG st' = CONFIG st"
proof (induction evs arbitrary: st)
  case Nil
  then show ?case by simp
next
  case (Cons ev evs)
  from Cons.prems consider
    (now) "snd (step st ev) = Some (req, resp)"
    | (later) "(req, resp) \<in> set (snd (run (fst (step st ev)) evs))"
    by (auto simp add: run_Cons split: option.splits)
  then show ?case
  proof cases
    case now
    then show ?thesis using step_response by blast
  next
    case later
    from Cons.IH [OF later] obtain st' rt where
      "resp = fst (full_dispatch_request st' rt req)"
      "is_shutting_down (fst (step st ev)) \<longrightarrow> is_shutting_down st'"
      "start_time st' = start_time (fst (step st ev))" "CONFIG st' = CONFIG (fst (step st ev))"
      by blast
    then show ?thesis
      using step_keeps_flag [of st ev] by (auto simp: step_globals)
  qed
qed

lemma handle_exception_production:
  "\<not> debug (CONFIG st) \<Longrightarrow>
   handle_exception st e =
     Inr (add_security_headers (fst (internal_error e st)), snd (internal_error e st))"
  by (simp add: handle_exception_def split: prod.splits)

lemma handle_exception_Inr:
  "handle_exception st e = Inr (r, st') \<Longrightarrow>
   r = add_security_headers (fst (internal_error e st)) \<and> st' = snd (internal_error e st)"
  by (auto simp: handle_exception_def split: if_splits prod.splits)

lemma internal_error_result:
  "fst (internal_error e st) = with_status (jsonify [(''error'', JStr ''Internal Server Error'')]) 500"
  "snd (internal_error e st) = logger_error (''Internal server error: '' @ e) st"
  by (simp_all add: internal_error_def Let_def)

lemma status_with_status [simp]: "status (with_status r c) = c"
  by (simp add: with_status_def)

lemma started_running: "exit_status (trace started) = None"
  by (simp add: started_def)

lemma view_status:
  "status (index st rt) = (if is_shutting_down st then 503 else 200)"
  "status (ready st rt) = (if is_shutting_down st then 503 else 200)"
  "status (health st rt) = 200"
  "status (metrics st rt) = 200"
  "status (info st rt) = 200"
  by (simp_all add: index_def ready_def health_def metrics_def info_def jsonify_def Let_def)

lemma status_on_route:
  assumes "request_method req = ''GET'' \<or> request_method req = ''HEAD''"
  shows "path req = ''/'' \<or> path req = ''/ready'' \<Longrightarrow>
           status (fst (full_dispatch_request st rt req)) = (if is_shutting_down st then 503 else 200)"
    and "path req = ''/health'' \<or> path req = ''/metrics'' \<or> path req = ''/info'' \<Longrightarrow>
           status (fst (full_dispatch_request st rt req)) = 200"
proof -
  assume "path req = ''/'' \<or> path req = ''/ready''"
  then have "map_of url_map (path req) = Some Index \<or> map_of url_map (path req) = Some Ready"
    by (auto simp: url_map_def)
  then show "status (fst (full_dispatch_request st rt req)) = (if is_shutting_down st then 503 else 200)"
    using assms by (auto simp: dispatch_to_view view_status)
next
  assume "path req = ''/health'' \<or> path req = ''/metrics'' \<or> path req = ''/info''"
  then have "map_of url_map (path req) = Some Health \<or> map_of url_map (path req) = Some Metrics
      \<or> map_of url_map (path req) = Some Info"
    by (auto simp: url_map_def)
  then show "status (fst (full_dispatch_request st rt req)) = 200"
    using assms by (auto simp: dispatch_to_view view_status)
qed

lemma str_nat_digit: "n < 10 \<Longrightarrow> str_nat n = [digit_char n]"
  by (simp add: str_nat.simps)

lemma str_nat_numeral:
  "str_nat (numeral k) =
     (if (numeral k :: nat) < 10 then [digit_char (numeral k)]
      else str_nat (numeral k div 10) @ [digit_char (numeral k mod 10)])"
  by (rule str_nat.simps)

lemma str_int_15: "str_int 15 = ''15''"
  by (simp add: str_int_def str_nat_numeral str_nat_digit digit_char_def)

lemma main_Raises:
  "fst (main st (Raises e)) =
     sys_exit 1 (logger_error (''Failed to start application: '' @ e)
       (logger_info (''Debug mode: '' @ str_bool (debug (CONFIG st)))
         (logger_info (''Environment: '' @ env (CONFIG st))
           (logger_info (''Starting application on '' @ host (CONFIG st) @ '':'' @
              str_int (port (CONFIG st))) st))))"
  by (simp add: main_def Let_def)

lemma main_Serves:
  "main st (Serves evs) =
     run (logger_info (''Debug mode: '' @ str_bool (debug (CONFIG st)))
           (logger_info (''Environment: '' @ env (CONFIG st))
             (logger_info (''Starting application on '' @ host (CONFIG st) @ '':'' @
                str_int (port (CONFIG st))) st))) evs"
  by (simp add: main_def Let_def)

lemma run_signal_then_grace:
  "exit_status (trace st) = None \<Longrightarrow>
   fst (run st [Signal s, Grace_elapsed]) = graceful_shutdown (signum s) st"
  by (simp add: run_Cons step_Signal step_Grace_elapsed exit_status_append graceful_shutdown_def
     )

lemma lower_char_letter:
  "lower_char c = CHR ''t'' \<longleftrightarrow> same_letter c CHR ''t''"
  "lower_char c = CHR ''r'' \<longleftrightarrow> same_letter c CHR ''r''"
  "lower_char c = CHR ''u'' \<longleftrightarrow> same_letter c CHR ''u''"
  "lower_char c = CHR ''e'' \<longleftrightarrow> same_letter c CHR ''e''"
  by (auto simp: lower_char_def same_letter_def split: if_splits)

lemma lower_eq_true: "lower v = ''true'' \<longleftrightarrow> equal_ignoring_case v ''true''"
  by (auto simp: lower_def equal_ignoring_case_def map_eq_Cons_conv list_all2_Cons2
      lower_char_letter)

lemma CONFIG_of_Inr:
  assumes "CONFIG_of py e = Inr c"
  shows "(case e ''PORT'' of None \<Rightarrow> port c = 8080 | Some s \<Rightarrow> py_int py s = Some (port c))"
    and "host c = getenv e ''HOST'' ''0.0.0.0''"
    and "env c = getenv e ''FLASK_ENV'' ''production''"
    and "debug c \<longleftrightarrow> lower (getenv e ''DEBUG'' ''false'') = ''true''"
  using assms by (auto simp: CONFIG_of_def split: option.splits)

lemma CONFIG_of_unset: "e ''PORT'' = None \<Longrightarrow> \<exists>c. CONFIG_of py e = Inr c"
  by (simp add: CONFIG_of_def)

lemma CONFIG_of_parsed:
  "e ''PORT'' = Some s \<Longrightarrow> py_int py s = Some n \<Longrightarrow> \<exists>c. CONFIG_of py e = Inr c \<and> port c = n"
  by (simp add: CONFIG_of_def)

lemma CONFIG_of_rejected:
  "e ''PORT'' = Some s \<Longrightarrow> py_int py s = None \<Longrightarrow> CONFIG_of py e = Inl ValueError"
  by (simp add: CONFIG_of_def)

lemma py_int_9090: "py_int an_interpreter ''9090'' = Some 9090"
  by (simp add: py_int_def is_ascii_def skip_space_def int_space_def unsigned_def digit_val_def
      too_many_digits_def an_interpreter_def)

lemma py_int_separator: "py_int an_interpreter (CHR 0x1C # ''8080'') = None"
  by (simp add: py_int_def is_ascii_def skip_space_def int_space_def unsigned_def digit_val_def)

lemma py_int_spaces: "py_int an_interpreter '' +8_080 '' = Some 8080"
  by (simp add: py_int_def is_ascii_def skip_space_def int_space_def unsigned_def digit_val_def
      too_many_digits_def an_interpreter_def)

lemma main_globals:
  "CONFIG (fst (main st l)) = CONFIG st \<and> start_time (fst (main st l)) = start_time st"
  by (cases l) (simp_all add: main_Raises main_Serves run_globals)

lemma total_seconds_nonneg: "0 \<le> d \<Longrightarrow> 0 \<le> total_seconds d"
  by (simp add: total_seconds_def)

lemma total_seconds_mono: "d \<le> d' \<Longrightarrow> total_seconds d \<le> total_seconds d'"
  by (simp add: total_seconds_def divide_right_mono)

lemma health_response:
  "status (health st rt) = 200"
  "header_values (headers (health st rt)) ''Content-Type'' = [''application/json'']"
  "json_field (health st rt) ''status'' = Some (JStr ''healthy'')"
  "json_field (health st rt) ''uptime'' = Some (JFloat (total_seconds (clock rt 0 - start_time st)))"
  "json_field (health st rt) ''timestamp'' = Some (JIso (clock rt 1))"
  by (simp_all add: health_def jsonify_def json_field_def Let_def header_values_Cons
      header_values_Nil)

lemma dispatch_health:
  assumes "path req = ''/health''"
    and "request_method req = ''GET'' \<or> request_method req = ''HEAD''"
  shows "fst (full_dispatch_request st rt req) = add_security_headers (health (log_request req st) rt)"
proof -
  have "map_of url_map (path req) = Some Health"
    using assms(1) by (simp add: url_map_def)
  then show ?thesis
    using assms(2) by (simp add: dispatch_to_view)
qed

lemma platform_clock: "clock (platform t) k = t + 1000000 * int k"
  by (simp add: platform_def)



section \<open>Readiness\<close>

text \<open>
  C1. A request to \<^verbatim>\<open>/ready\<close> (the route answers \<^verbatim>\<open>GET\<close>, and \<^verbatim>\<open>HEAD\<close> with it) gets
  a body whose member \<^verbatim>\<open>ready\<close> is a boolean, true exactly when the shutdown flag is
  false; the status is 200 when it is true and 503 when it is false.
\<close>

theorem ready_reports_flag:
  assumes "path req = ''/ready''"
    and "request_method req = ''GET'' \<or> request_method req = ''HEAD''"
  shows "\<exists>b. json_field (fst (full_dispatch_request st rt req)) ''ready'' = Some (JBool b)
           \<and> (b \<longleftrightarrow> \<not> is_shutting_down st)
           \<and> status (fst (full_dispatch_request st rt req)) = (if b then 200 else 503)"
proof -
  have "map_of url_map (path req) = Some Ready"
    using assms(1) by (simp add: url_map_def)
  then have "fst (full_dispatch_request st rt req) = add_security_headers (ready (log_request req st) rt)"
    using assms(2) by (simp add: dispatch_to_view)
  then show ?thesis
    by (simp add: ready_def json_field_def jsonify_def with_status_def Let_def)
qed

theorem ready_reports_flag_witness:
  "path (GET ''/ready'') = ''/ready''
   \<and> json_field (fst (full_dispatch_request (started\<lparr>is_shutting_down := True\<rparr>) (platform 15000000) (GET ''/ready'')))
        ''ready'' = Some (JBool False)
   \<and> status (fst (full_dispatch_request (started\<lparr>is_shutting_down := True\<rparr>) (platform 15000000) (GET ''/ready''))) = 503
   \<and> json_field (fst (full_dispatch_request started (platform 15000000) (GET ''/ready''))) ''ready'' = Some (JBool True)
   \<and> status (fst (full_dispatch_request started (platform 15000000) (GET ''/ready''))) = 200"
proof -
  have p: "path (GET ''/ready'') = ''/ready''"
    by simp
  have m: "request_method (GET ''/ready'') = ''GET'' \<or> request_method (GET ''/ready'') = ''HEAD''"
    by simp
  have "is_shutting_down (started\<lparr>is_shutting_down := True\<rparr>)" "\<not> is_shutting_down started"
    by (simp_all add: started_def)
  with ready_reports_flag [OF p m, of "started\<lparr>is_shutting_down := True\<rparr>" "platform 15000000"]
    ready_reports_flag [OF p m, of started "platform 15000000"] p
  show ?thesis by auto
qed

section \<open>The root route\<close>

text \<open>
  C3. A request to \<^verbatim>\<open>/\<close> is answered, while the shutdown flag is set, by 503 with the
  body \<^verbatim>\<open>{"error": "Service shutting down"}\<close>, and otherwise by 200 with a JSON body
  that holds a message, the version \<^verbatim>\<open>1.0.0\<close>, the configured environment name, the
  ISO form of the clock reading taken by the view, and the interpreter's version string.
\<close>

theorem index_greets_or_refuses:
  assumes "path req = ''/''"
    and "request_method req = ''GET'' \<or> request_method req = ''HEAD''"
  shows "(is_shutting_down st \<longrightarrow>
            status (fst (full_dispatch_request st rt req)) = 503
          \<and> body (fst (full_dispatch_request st rt req)) = Json (JObj [(''error'', JStr ''Service shutting down'')]))
       \<and> (\<not> is_shutting_down st \<longrightarrow>
            status (fst (full_dispatch_request st rt req)) = 200
          \<and> header_values (headers (fst (full_dispatch_request st rt req))) ''Content-Type'' = [''application/json'']
          \<and> json_field (fst (full_dispatch_request st rt req)) ''message'' =
               Some (JStr ''Hello from Python Docker base image!'')
          \<and> json_field (fst (full_dispatch_request st rt req)) ''version'' = Some (JStr ''1.0.0'')
          \<and> json_field (fst (full_dispatch_request st rt req)) ''environment'' = Some (JStr (env (CONFIG st)))
          \<and> json_field (fst (full_dispatch_request st rt req)) ''timestamp'' = Some (JIso (clock rt 0))
          \<and> json_field (fst (full_dispatch_request st rt req)) ''python_version'' = Some (JStr (sys_version rt)))"
proof -
  have "map_of url_map (path req) = Some Index"
    using assms(1) by (simp add: url_map_def)
  then have r: "fst (full_dispatch_request st rt req) = add_security_headers (index (log_request req st) rt)"
    using assms(2) by (simp add: dispatch_to_view)
  show ?thesis
    unfolding r
    by (simp add: index_def json_field_def jsonify_def with_status_def header_values_Cons
        header_values_Nil)
qed

theorem index_greets_or_refuses_witness:
  "path (GET ''/'') = ''/''
   \<and> status (fst (full_dispatch_request (started\<lparr>is_shutting_down := True\<rparr>) (platform 15000000) (GET ''/''))) = 503
   \<and> body (fst (full_dispatch_request (started\<lparr>is_shutting_down := True\<rparr>) (platform 15000000) (GET ''/''))) =
        Json (JObj [(''error'', JStr ''Service shutting down'')])
   \<and> status (fst (full_dispatch_request started (platform 15000000) (GET ''/''))) = 200
   \<and> json_field (fst (full_dispatch_request started (platform 15000000) (GET ''/''))) ''version'' = Some (JStr ''1.0.0'')
   \<and> json_field (fst (full_dispatch_request started (platform 15000000) (GET ''/''))) ''environment'' =
        Some (JStr ''production'')
   \<and> json_field (fst (full_dispatch_request started (platform 15000000) (GET ''/''))) ''timestamp'' =
        Some (JIso 15000000)"
proof -
  have p: "path (GET ''/'') = ''/''"
    by simp
  have m: "request_method (GET ''/'') = ''GET'' \<or> request_method (GET ''/'') = ''HEAD''"
    by simp
  have "is_shutting_down (started\<lparr>is_shutting_down := True\<rparr>)" "\<not> is_shutting_down started"
    "env (CONFIG started) = ''production''" "clock (platform 15000000) 0 = 15000000"
    by (simp_all add: started_def platform_def)
  with index_greets_or_refuses [OF p m, of "started\<lparr>is_shutting_down := True\<rparr>" "platform 15000000"]
    index_greets_or_refuses [OF p m, of started "platform 15000000"] p
  show ?thesis by simp
qed

section \<open>Security headers\<close>



section \<open>Unmatched paths\<close>

text \<open>
  C8. A request whose path matches no rule (it is none of the five routes of the module
  and does not lie under the framework's \<^verbatim>\<open>/static/\<close>) is answered by 404 with the
  JSON body \<^verbatim>\<open>{"error": "Not Found", "path": p}\<close>, where \<open>p\<close> is the path of the request
  as the handler reads it, whatever the method.
\<close>

theorem not_found_echoes_path:
  assumes "path req \<notin> fst ` set url_map"
    and "take 8 (path req) \<noteq> ''/static/''"
  shows "status (fst (full_dispatch_request st rt req)) = 404
       \<and> header_values (headers (fst (full_dispatch_request st rt req))) ''Content-Type'' = [''application/json'']
       \<and> body (fst (full_dispatch_request st rt req)) =
           Json (JObj [(''error'', JStr ''Not Found''), (''path'', JStr (path req))])
       \<and> json_field (fst (full_dispatch_request st rt req)) ''error'' = Some (JStr ''Not Found'')
       \<and> json_field (fst (full_dispatch_request st rt req)) ''path'' = Some (JStr (path req))"
  unfolding dispatch_no_match [OF assms]
  by (simp add: not_found_def jsonify_def with_status_def json_field_def header_values_Cons
      header_values_Nil)

theorem not_found_echoes_path_witness:
  "''/does-not-exist'' \<notin> fst ` set url_map
   \<and> take 8 ''/does-not-exist'' \<noteq> ''/static/''
   \<and> status (fst (full_dispatch_request started (platform 15000000) (GET ''/does-not-exist''))) = 404
   \<and> json_field (fst (full_dispatch_request started (platform 15000000) (GET ''/does-not-exist''))) ''path'' =
        Some (JStr ''/does-not-exist'')
   \<and> json_field (fst (full_dispatch_request started (platform 15000000) (GET ''/does-not-exist''))) ''error'' =
        Some (JStr ''Not Found'')"
proof -
  have h: "path (GET ''/does-not-exist'') \<notin> fst ` set url_map"
    by (simp add: url_map_def)
  have s: "take 8 (path (GET ''/does-not-exist'')) \<noteq> ''/static/''"
    by simp
  from not_found_echoes_path [OF h s, of started "platform 15000000"] h s
  show ?thesis by simp
qed

section \<open>Draining\<close>

text \<open>
  C6. A delivered signal sets the shutdown flag, and no later event clears it. From any
  state in which the flag is set, and through any further requests and signals, every
  request to \<^verbatim>\<open>/\<close> and to \<^verbatim>\<open>/ready\<close> that is served gets 503, and every request to
  \<^verbatim>\<open>/health\<close>, \<^verbatim>\<open>/metrics\<close> and \<^verbatim>\<open>/info\<close> that is served gets 200.
\<close>

theorem draining_is_permanent:
  "(exit_status (trace st) = None \<longrightarrow> is_shutting_down (fst (step st (Signal s))))
   \<and> (is_shutting_down st \<longrightarrow>
        is_shutting_down (fst (step st ev))
      \<and> is_shutting_down (fst (run st evs))
      \<and> (\<forall>x \<in> set (snd (run st evs)).
            request_method (fst x) = ''GET'' \<or> request_method (fst x) = ''HEAD'' \<longrightarrow>
              (path (fst x) = ''/'' \<or> path (fst x) = ''/ready'' \<longrightarrow> status (snd x) = 503)
            \<and> (path (fst x) = ''/health'' \<or> path (fst x) = ''/metrics'' \<or> path (fst x) = ''/info''
                 \<longrightarrow> status (snd x) = 200)))"
proof (intro conjI impI ballI)
  assume "exit_status (trace st) = None"
  then show "is_shutting_down (fst (step st (Signal s)))"
    by (simp add: step_Signal)
next
  assume "is_shutting_down st"
  then show "is_shutting_down (fst (step st ev))" "is_shutting_down (fst (run st evs))"
    by (simp_all add: step_keeps_flag run_keeps_flag)
next
  fix x
  assume flag: "is_shutting_down st" and x: "x \<in> set (snd (run st evs))"
    and m: "request_method (fst x) = ''GET'' \<or> request_method (fst x) = ''HEAD''"
  from x have "(fst x, snd x) \<in> set (snd (run st evs))"
    by simp
  from run_responses [OF this] flag obtain st' rt where
    r: "snd x = fst (full_dispatch_request st' rt (fst x))" and f: "is_shutting_down st'"
    by blast
  {
    assume "path (fst x) = ''/'' \<or> path (fst x) = ''/ready''"
    then show "status (snd x) = 503"
      using status_on_route(1) [OF m, of st' rt] f r by simp
  }
  {
    assume "path (fst x) = ''/health'' \<or> path (fst x) = ''/metrics'' \<or> path (fst x) = ''/info''"
    then show "status (snd x) = 200"
      using status_on_route(2) [OF m, of st' rt] r by simp
  }
qed



theorem draining_is_permanent_witness:
  "exit_status (trace started) = None
   \<and> is_shutting_down (fst (step started (Signal SIGTERM)))
   \<and> is_shutting_down
        (fst (run (fst (step started (Signal SIGTERM)))
          [Request (platform 15000000) (GET ''/''), Request (platform 16000000) (GET ''/health''),
           Signal SIGINT, Request (platform 17000000) (GET ''/ready''),
           Request (platform 18000000) (GET ''/metrics''), Request (platform 19000000) (GET ''/info'')]))
   \<and> map (\<lambda>x. (path (fst x), status (snd x)))
        (snd (run (fst (step started (Signal SIGTERM)))
          [Request (platform 15000000) (GET ''/''), Request (platform 16000000) (GET ''/health''),
           Signal SIGINT, Request (platform 17000000) (GET ''/ready''),
           Request (platform 18000000) (GET ''/metrics''), Request (platform 19000000) (GET ''/info'')]))
      = [(''/'', 503), (''/health'', 200), (''/ready'', 503), (''/metrics'', 200), (''/info'', 200)]"
proof -
  let ?st = "fst (step started (Signal SIGTERM))"
  let ?evs = "[Request (platform 15000000) (GET ''/''), Request (platform 16000000) (GET ''/health''),
           Signal SIGINT, Request (platform 17000000) (GET ''/ready''),
           Request (platform 18000000) (GET ''/metrics''), Request (platform 19000000) (GET ''/info'')]"
  have flag: "is_shutting_down ?st"
    using draining_is_permanent [of started SIGTERM Grace_elapsed "[]"] started_running by simp
  have kept: "is_shutting_down (fst (run ?st ?evs))"
    using draining_is_permanent [of ?st SIGTERM Grace_elapsed ?evs] flag by blast
  have served: "map (\<lambda>x. (path (fst x), status (snd x))) (snd (run ?st ?evs))
      = [(''/'', 503), (''/health'', 200), (''/ready'', 503), (''/metrics'', 200), (''/info'', 200)]"
    by (simp add: run_Cons step_Request step_Signal started_running exit_status_append
        trace_log_request status_on_route)
  from started_running flag kept served show ?thesis
    by simp
qed

section \<open>Shutdown sequence\<close>

text \<open>
  C2. On either of the two signals the handler logs, sets the shutdown flag, logs again
  and blocks in a sleep of 2 seconds, with the flag already set; when the sleep is over
  it logs once more and exits with code 0. In a running process that is what the
  delivery of the signal followed by the end of the sleep amounts to, also when the
  process was started through the main block, whose \<^verbatim>\<open>except\<close> clause the exit passes.
  An exception raised by \<^verbatim>\<open>app.run\<close> is logged as an error and followed by exit code 1.
\<close>

theorem graceful_shutdown_sequence:
  "is_shutting_down (graceful_shutdown_until_sleep (signum s) st)
   \<and> trace (graceful_shutdown_until_sleep (signum s) st) =
       trace st @
         [Log INFO (''Received signal '' @ str_int (signum s) @ '', starting graceful shutdown...''),
          Log INFO ''Waiting for in-flight requests to complete...'',
          Sleep 2]
   \<and> is_shutting_down (graceful_shutdown (signum s) st)
   \<and> trace (graceful_shutdown (signum s) st) =
       trace (graceful_shutdown_until_sleep (signum s) st) @ [Log INFO ''Shutdown complete'', Exit 0]
   \<and> (exit_status (trace st) = None \<longrightarrow>
         fst (step st (Signal s)) = graceful_shutdown_until_sleep (signum s) st
       \<and> exit_status (trace (fst (step st (Signal s)))) = None
       \<and> fst (run st [Signal s, Grace_elapsed]) = graceful_shutdown (signum s) st
       \<and> exit_status (trace (fst (run st [Signal s, Grace_elapsed]))) = Some 0
       \<and> exit_status (trace (fst (main st (Serves [Signal s, Grace_elapsed])))) = Some 0
       \<and> trace (fst (main st (Raises e))) =
           trace (fst (main st (Serves []))) @
             [Log ERROR (''Failed to start application: '' @ e), Exit 1]
       \<and> exit_status (trace (fst (main st (Serves [])))) = None
       \<and> exit_status (trace (fst (main st (Raises e)))) = Some 1)"
proof (intro conjI impI)
  show "is_shutting_down (graceful_shutdown_until_sleep (signum s) st)"
    and "is_shutting_down (graceful_shutdown (signum s) st)"
    by (simp_all add: graceful_shutdown_def)
next
  show "trace (graceful_shutdown_until_sleep (signum s) st) =
       trace st @
         [Log INFO (''Received signal '' @ str_int (signum s) @ '', starting graceful shutdown...''),
          Log INFO ''Waiting for in-flight requests to complete...'',
          Sleep 2]"
    by simp
next
  show "trace (graceful_shutdown (signum s) st) =
       trace (graceful_shutdown_until_sleep (signum s) st) @ [Log INFO ''Shutdown complete'', Exit 0]"
    by (simp add: graceful_shutdown_def)
next
  assume running: "exit_status (trace st) = None"
  then show "fst (step st (Signal s)) = graceful_shutdown_until_sleep (signum s) st"
    by (simp add: step_Signal)
  from running show "exit_status (trace (fst (step st (Signal s)))) = None"
    by (simp add: step_Signal exit_status_append)
  from running show "fst (run st [Signal s, Grace_elapsed]) = graceful_shutdown (signum s) st"
    by (rule run_signal_then_grace)
  from running show "exit_status (trace (fst (run st [Signal s, Grace_elapsed]))) = Some 0"
    by (simp add: run_signal_then_grace graceful_shutdown_def exit_status_append)
  from running show "exit_status (trace (fst (main st (Serves [Signal s, Grace_elapsed])))) = Some 0"
    by (simp add: main_Serves run_signal_then_grace graceful_shutdown_def exit_status_append)
  show "trace (fst (main st (Raises e))) =
           trace (fst (main st (Serves []))) @
             [Log ERROR (''Failed to start application: '' @ e), Exit 1]"
    by (simp add: main_Raises main_Serves)
  from running show "exit_status (trace (fst (main st (Serves [])))) = None"
    by (simp add: main_Serves exit_status_append)
  from running show "exit_status (trace (fst (main st (Raises e)))) = Some 1"
    by (simp add: main_Raises exit_status_append)
qed


theorem graceful_shutdown_sequence_witness:
  "exit_status (trace started) = None
   \<and> trace (fst (run started [Signal SIGTERM, Grace_elapsed])) =
       [Log INFO ''Received signal 15, starting graceful shutdown...'',
        Log INFO ''Waiting for in-flight requests to complete...'',
        Sleep 2,
        Log INFO ''Shutdown complete'',
        Exit 0]
   \<and> is_shutting_down (fst (run started [Signal SIGTERM, Grace_elapsed]))
   \<and> exit_status (trace (fst (run started [Signal SIGTERM, Grace_elapsed]))) = Some 0
   \<and> exit_status (trace (fst (main started (Raises ''Address already in use'')))) = Some 1"
proof -
  have "trace started = []"
    by (simp add: started_def)
  with graceful_shutdown_sequence [of SIGTERM started "''Address already in use''"]
    started_running str_int_15
  show ?thesis by (simp add: exit_status_append)
qed

section \<open>Frame of the handlers\<close>

text \<open>
  C10. Handling a request leaves \<^verbatim>\<open>CONFIG\<close>, \<^verbatim>\<open>start_time\<close> and
  \<^verbatim>\<open>is_shutting_down\<close> as they were, whatever the route, the method or the outcome
  (view, 404 handler, framework response); so does the handler of 500. Among all
  events of the running process only the delivery of a signal changes
  \<^verbatim>\<open>is_shutting_down\<close>, and in a running process it sets it.
\<close>

theorem handlers_leave_globals:
  "CONFIG (snd (full_dispatch_request st rt req)) = CONFIG st
   \<and> start_time (snd (full_dispatch_request st rt req)) = start_time st
   \<and> is_shutting_down (snd (full_dispatch_request st rt req)) = is_shutting_down st
   \<and> CONFIG (snd (internal_error e st)) = CONFIG st
   \<and> start_time (snd (internal_error e st)) = start_time st
   \<and> is_shutting_down (snd (internal_error e st)) = is_shutting_down st
   \<and> (\<forall>r st'. handle_exception st e = Inr (r, st') \<longrightarrow>
         CONFIG st' = CONFIG st \<and> start_time st' = start_time st
       \<and> is_shutting_down st' = is_shutting_down st)
   \<and> (is_shutting_down (fst (step st ev)) \<noteq> is_shutting_down st \<longrightarrow> (\<exists>s. ev = Signal s))
   \<and> (exit_status (trace st) = None \<longrightarrow> is_shutting_down (fst (step st (Signal s))))"
proof (intro conjI allI impI)
  show "CONFIG (snd (full_dispatch_request st rt req)) = CONFIG st"
    and "start_time (snd (full_dispatch_request st rt req)) = start_time st"
    and "is_shutting_down (snd (full_dispatch_request st rt req)) = is_shutting_down st"
    by (simp_all add: snd_full_dispatch_request)
next
  show "CONFIG (snd (internal_error e st)) = CONFIG st"
    and "start_time (snd (internal_error e st)) = start_time st"
    and "is_shutting_down (snd (internal_error e st)) = is_shutting_down st"
    by (simp_all add: internal_error_result)
next
  fix r st'
  assume "handle_exception st e = Inr (r, st')"
  then have "st' = snd (internal_error e st)"
    by (simp add: handle_exception_Inr)
  then show "CONFIG st' = CONFIG st" "start_time st' = start_time st"
    "is_shutting_down st' = is_shutting_down st"
    by (simp_all add: internal_error_result)
next
  assume "is_shutting_down (fst (step st ev)) \<noteq> is_shutting_down st"
  then show "\<exists>s. ev = Signal s"
    by (rule step_flag_writer)
next
  assume "exit_status (trace st) = None"
  then show "is_shutting_down (fst (step st (Signal s)))"
    by (simp add: step_Signal)
qed

theorem handlers_leave_globals_witness:
  "start_time (snd (full_dispatch_request started (platform 15000000) (GET ''/metrics''))) = 10000000
   \<and> \<not> is_shutting_down (snd (full_dispatch_request started (platform 15000000) (GET ''/metrics'')))
   \<and> trace (snd (full_dispatch_request started (platform 15000000) (GET ''/metrics''))) =
        [Log INFO ''Request: GET /metrics from 10.0.0.1'']
   \<and> (\<exists>r st'. handle_exception started ''boom'' = Inr (r, st') \<and> \<not> is_shutting_down st')
   \<and> \<not> is_shutting_down started
   \<and> is_shutting_down (fst (step started (Signal SIGINT)))"
proof -
  have s: "start_time started = 10000000" "\<not> is_shutting_down started" "\<not> debug (CONFIG started)"
    "trace started = []"
    by (simp_all add: started_def)
  have t: "trace (snd (full_dispatch_request started (platform 15000000) (GET ''/metrics''))) =
        [Log INFO ''Request: GET /metrics from 10.0.0.1'']"
    by (simp add: snd_full_dispatch_request trace_log_request s GET_def)
  have h: "\<exists>r st'. handle_exception started ''boom'' = Inr (r, st')"
    by (simp add: handle_exception_production s)
  from handlers_leave_globals
    [of started "platform 15000000" "GET ''/metrics''" "''boom''" "Signal SIGINT" SIGINT]
    s t h started_running
  show ?thesis by auto
qed

section \<open>Configuration is read once\<close>

text \<open>
  C9. Loading the module reads the environment once. With \<^verbatim>\<open>PORT\<close> unset it always
  yields a configuration, with port 8080; with \<^verbatim>\<open>PORT\<close> set it yields one exactly when
  \<^verbatim>\<open>int\<close> accepts the value, with that integer as the port, and raises
  \<^verbatim>\<open>ValueError\<close> otherwise. In a configuration the host is \<^verbatim>\<open>HOST\<close> or
  \<^verbatim>\<open>0.0.0.0\<close>, the environment name is \<^verbatim>\<open>FLASK_ENV\<close> or \<^verbatim>\<open>production\<close>, and the
  debug flag is true exactly when \<^verbatim>\<open>DEBUG\<close> is set to a value equal to \<^verbatim>\<open>true\<close> up to
  case. The state of the process starts with that configuration, and no request,
  signal, run or main block changes it.
\<close>

theorem CONFIG_from_environment:
  "(\<forall>c. CONFIG_of py e = Inr c \<longrightarrow>
       (case e ''PORT'' of None \<Rightarrow> port c = 8080 | Some s \<Rightarrow> py_int py s = Some (port c))
     \<and> host c = (case e ''HOST'' of None \<Rightarrow> ''0.0.0.0'' | Some h \<Rightarrow> h)
     \<and> env c = (case e ''FLASK_ENV'' of None \<Rightarrow> ''production'' | Some n \<Rightarrow> n)
     \<and> (debug c \<longleftrightarrow>
          (case e ''DEBUG'' of None \<Rightarrow> False | Some v \<Rightarrow> equal_ignoring_case v ''true'')))
   \<and> (e ''PORT'' = None \<longrightarrow> (\<exists>c. CONFIG_of py e = Inr c))
   \<and> (\<forall>s n. e ''PORT'' = Some s \<and> py_int py s = Some n \<longrightarrow>
         (\<exists>c. CONFIG_of py e = Inr c \<and> port c = n))
   \<and> (\<forall>s. e ''PORT'' = Some s \<and> py_int py s = None \<longrightarrow> CONFIG_of py e = Inl ValueError)
   \<and> (\<forall>st0. module_init py e t = Inr st0 \<longrightarrow> CONFIG_of py e = Inr (CONFIG st0))
   \<and> CONFIG (snd (full_dispatch_request st rt req)) = CONFIG st
   \<and> CONFIG (fst (step st ev)) = CONFIG st
   \<and> CONFIG (fst (run st evs)) = CONFIG st
   \<and> CONFIG (fst (main st l)) = CONFIG st"
proof (intro conjI allI impI)
  fix c
  assume c: "CONFIG_of py e = Inr c"
  show "case e ''PORT'' of None \<Rightarrow> port c = 8080 | Some s \<Rightarrow> py_int py s = Some (port c)"
    by (rule CONFIG_of_Inr(1) [OF c])
  show "host c = (case e ''HOST'' of None \<Rightarrow> ''0.0.0.0'' | Some h \<Rightarrow> h)"
    by (simp add: CONFIG_of_Inr(2) [OF c] getenv_def)
  show "env c = (case e ''FLASK_ENV'' of None \<Rightarrow> ''production'' | Some n \<Rightarrow> n)"
    by (simp add: CONFIG_of_Inr(3) [OF c] getenv_def)
  have "lower ''false'' \<noteq> ''true''"
    by (simp add: lower_def lower_char_def)
  then show "debug c \<longleftrightarrow>
      (case e ''DEBUG'' of None \<Rightarrow> False | Some v \<Rightarrow> equal_ignoring_case v ''true'')"
    by (simp add: CONFIG_of_Inr(4) [OF c] getenv_def lower_eq_true split: option.splits)
next
  assume "e ''PORT'' = None"
  then show "\<exists>c. CONFIG_of py e = Inr c"
    by (rule CONFIG_of_unset)
next
  fix s n
  assume "e ''PORT'' = Some s \<and> py_int py s = Some n"
  then show "\<exists>c. CONFIG_of py e = Inr c \<and> port c = n"
    by (simp add: CONFIG_of_parsed)
next
  fix s
  assume "e ''PORT'' = Some s \<and> py_int py s = None"
  then show "CONFIG_of py e = Inl ValueError"
    by (simp add: CONFIG_of_rejected)
next
  fix st0
  assume "module_init py e t = Inr st0"
  then show "CONFIG_of py e = Inr (CONFIG st0)"
    by (auto simp: module_init_def split: sum.splits)
next
  show "CONFIG (snd (full_dispatch_request st rt req)) = CONFIG st"
    by (simp add: snd_full_dispatch_request)
  show "CONFIG (fst (step st ev)) = CONFIG st"
    by (rule step_globals)
  show "CONFIG (fst (run st evs)) = CONFIG st"
    by (simp add: run_globals)
  show "CONFIG (fst (main st l)) = CONFIG st"
    by (simp add: main_globals)
qed

theorem CONFIG_from_environment_witness:
  "CONFIG_of an_interpreter [''PORT'' \<mapsto> ''9090'', ''DEBUG'' \<mapsto> ''TrUe''] =
     Inr \<lparr>port = 9090, host = ''0.0.0.0'', env = ''production'', debug = True\<rparr>
   \<and> equal_ignoring_case ''TrUe'' ''true''
   \<and> CONFIG_of an_interpreter [''PORT'' \<mapsto> '' +8_080 ''] =
       Inr \<lparr>port = 8080, host = ''0.0.0.0'', env = ''production'', debug = False\<rparr>
   \<and> py_int an_interpreter (CHR 0x1C # ''8080'') = None
   \<and> CONFIG_of an_interpreter [''PORT'' \<mapsto> CHR 0x1C # ''8080''] = Inl ValueError
   \<and> CONFIG_of an_interpreter Map.empty =
       Inr \<lparr>port = 8080, host = ''0.0.0.0'', env = ''production'', debug = False\<rparr>
   \<and> module_init an_interpreter Map.empty 10000000 = Inr started"
proof -
  let ?e = "[''PORT'' \<mapsto> ''9090'', ''DEBUG'' \<mapsto> ''TrUe'']"
  let ?c = "\<lparr>port = 9090, host = ''0.0.0.0'', env = ''production'', debug = True\<rparr>"
  have set: "CONFIG_of an_interpreter ?e = Inr ?c"
    by (simp add: CONFIG_of_def py_int_9090 getenv_def lower_def lower_char_def)
  have spaced: "CONFIG_of an_interpreter [''PORT'' \<mapsto> '' +8_080 ''] =
      Inr \<lparr>port = 8080, host = ''0.0.0.0'', env = ''production'', debug = False\<rparr>"
    by (simp add: CONFIG_of_def py_int_spaces getenv_def lower_def lower_char_def)
  have unset: "CONFIG_of an_interpreter Map.empty =
      Inr \<lparr>port = 8080, host = ''0.0.0.0'', env = ''production'', debug = False\<rparr>"
    by (simp add: CONFIG_of_def getenv_def lower_def lower_char_def)
  have init: "module_init an_interpreter Map.empty 10000000 = Inr started"
    by (simp add: module_init_def unset started_def)
  from CONFIG_from_environment [of an_interpreter ?e, THEN conjunct1, rule_format, OF set]
  have ci: "equal_ignoring_case ''TrUe'' ''true''"
    by simp
  have "[''PORT'' \<mapsto> CHR 0x1C # ''8080''] ''PORT'' = Some (CHR 0x1C # ''8080'')
      \<and> py_int an_interpreter (CHR 0x1C # ''8080'') = None"
    by (simp add: py_int_separator)
  from CONFIG_from_environment
    [of an_interpreter "[''PORT'' \<mapsto> CHR 0x1C # ''8080'']", THEN conjunct2, THEN conjunct2,
      THEN conjunct2, THEN conjunct1, rule_format, OF this]
  have rejected: "CONFIG_of an_interpreter [''PORT'' \<mapsto> CHR 0x1C # ''8080''] = Inl ValueError" .
  from set ci spaced py_int_separator rejected unset init show ?thesis
    by simp
qed

section \<open>Health and uptime\<close>

text \<open>
  C5, as the code has it. A request to \<^verbatim>\<open>/health\<close> is answered by 200 with a JSON body
  whose status is \<^verbatim>\<open>healthy\<close> and whose uptime is the wall-clock reading taken by the
  view minus \<^verbatim>\<open>start_time\<close>, in seconds. The uptime is non-negative when that reading is
  not earlier than \<^verbatim>\<open>start_time\<close>; and of two calls, the second made after the first
  and after any events in between, the second reports no smaller an uptime when its
  reading is not earlier than the first one's.
\<close>

theorem health_reports_uptime:
  assumes "path req = ''/health''"
    and "request_method req = ''GET'' \<or> request_method req = ''HEAD''"
    and "path req' = ''/health''"
    and "request_method req' = ''GET'' \<or> request_method req' = ''HEAD''"
    and "st' = fst (run (snd (full_dispatch_request st rt req)) evs)"
  shows "status (fst (full_dispatch_request st rt req)) = 200
       \<and> header_values (headers (fst (full_dispatch_request st rt req))) ''Content-Type'' = [''application/json'']
       \<and> json_field (fst (full_dispatch_request st rt req)) ''status'' = Some (JStr ''healthy'')
       \<and> json_field (fst (full_dispatch_request st rt req)) ''uptime'' =
           Some (JFloat (total_seconds (clock rt 0 - start_time st)))
       \<and> json_field (fst (full_dispatch_request st' rt' req')) ''uptime'' =
           Some (JFloat (total_seconds (clock rt' 0 - start_time st)))
       \<and> (start_time st \<le> clock rt 0 \<longrightarrow> 0 \<le> total_seconds (clock rt 0 - start_time st))
       \<and> (clock rt 0 \<le> clock rt' 0 \<longrightarrow>
            total_seconds (clock rt 0 - start_time st) \<le> total_seconds (clock rt' 0 - start_time st))"
proof -
  have "start_time st' = start_time st"
    using assms(5) by (simp add: run_globals snd_full_dispatch_request)
  then show ?thesis
    by (simp add: dispatch_health [OF assms(1,2)] dispatch_health [OF assms(3,4)] health_response
        total_seconds_nonneg total_seconds_mono)
qed

theorem health_reports_uptime_witness:
  "json_field (fst (full_dispatch_request started (platform 15000000) (GET ''/health''))) ''uptime'' =
     Some (JFloat 5)
   \<and> json_field
       (fst (full_dispatch_request
          (fst (run (snd (full_dispatch_request started (platform 15000000) (GET ''/health''))) [Signal SIGTERM]))
          (platform 16000000) (GET ''/health''))) ''uptime'' = Some (JFloat 6)
   \<and> status (fst (full_dispatch_request started (platform 15000000) (GET ''/health''))) = 200
   \<and> start_time started \<le> clock (platform 15000000) 0
   \<and> clock (platform 15000000) 0 \<le> clock (platform 16000000) 0"
proof -
  have p: "path (GET ''/health'') = ''/health''"
    and m: "request_method (GET ''/health'') = ''GET'' \<or> request_method (GET ''/health'') = ''HEAD''"
    by simp_all
  have s: "start_time started = 10000000"
    by (simp add: started_def)
  from health_reports_uptime [OF p m p m refl, of started "platform 15000000" "[Signal SIGTERM]"
      "platform 16000000"]
  show ?thesis
    by (simp add: platform_clock s total_seconds_def)
qed

text \<open>
  The clock is the wall clock, which can be set back. A process started at reading
  \<open>10\<^sup>7\<close> that serves one call at reading \<open>1.5 \<times> 10\<^sup>7\<close> and the next at reading
  \<open>4 \<times> 10\<^sup>6\<close> reports the uptimes 5 and then -6: negative, and smaller than before.
\<close>

theorem health_uptime_after_clock_set_back:
  "json_field (fst (full_dispatch_request started (platform 15000000) (GET ''/health''))) ''uptime'' =
     Some (JFloat 5)
   \<and> json_field
       (fst (full_dispatch_request (snd (full_dispatch_request started (platform 15000000) (GET ''/health'')))
          (platform 4000000) (GET ''/health''))) ''uptime'' = Some (JFloat (- 6))
   \<and> (- 6 :: real) < 0 \<and> (- 6 :: real) < 5"
proof -
  have p: "path (GET ''/health'') = ''/health''"
    and m: "request_method (GET ''/health'') = ''GET'' \<or> request_method (GET ''/health'') = ''HEAD''"
    by simp_all
  show ?thesis
    by (simp add: snd_full_dispatch_request dispatch_health [OF p m] health_response platform_clock
        total_seconds_def started_def)
qed

section \<open>Metrics\<close>




end
